theory Spec2Isabelle
  imports Main "HOL-Library.Sublist"
begin

section \<open>Python values and builtins used by the collectors\<close>

text \<open>
  Both collectors (\<open>scripts/github_collector.py\<close> and \<open>dags/collector.py\<close>) read a
  JSON body with \<open>dict.get\<close>, convert leaves with \<open>int(...)\<close> and \<open>str.replace\<close>, and
  bind the results to an SQL \<open>INSERT\<close>. The leaves of the body are JSON scalars as
  \<open>json.loads\<close> delivers them; numbers are integers (a fractional JSON number is outside
  the model) and strings are lists of characters with code points below 256.
\<close>

datatype pyval = PNone | PBool bool | PInt int | PStr string

text \<open>The exceptions that the modelled statements can raise.\<close>

datatype exn =
    RequestException
  | AttributeError
  | TypeError
  | ValueError
  | OverflowError
  | OSError
  | OperationalError
  | ProgrammingError
  | DataError
  | IntegrityError
  | InFailedSqlTransaction

text \<open>A departure object is a dict from field names to scalars; \<open>d.get(k, default)\<close>.\<close>

type_synonym pydict = "(string \<times> pyval) list"

definition py_get :: "pydict \<Rightarrow> string \<Rightarrow> pyval \<Rightarrow> pyval" where
  "py_get d k dflt = (case map_of d k of None \<Rightarrow> dflt | Some v \<Rightarrow> v)"

subsection \<open>\<open>int(x)\<close>\<close>

text \<open>
  The characters that \<open>int\<close> accepts before and after a literal: \<open>0x09\<close> to \<open>0x0D\<close>
  and \<open>0x20\<close>, and of the code points above 127 the spaces \<open>0x85\<close> and \<open>0xA0\<close>. The
  separators \<open>0x1C\<close> to \<open>0x1F\<close> are not among them (\<open>str.isspace\<close> holds for them, but
  \<open>int('\x1c5')\<close> raises \<open>ValueError\<close>).
\<close>

definition py_isspace :: "char \<Rightarrow> bool" where
  "py_isspace c =
     (c \<in> set [CHR 0x09, CHR 0x0A, CHR 0x0B, CHR 0x0C, CHR 0x0D, CHR 0x20, CHR 0x85, CHR 0xA0])"

definition py_isdigit :: "char \<Rightarrow> bool" where
  "py_isdigit c = (48 \<le> (of_char c :: nat) \<and> (of_char c :: nat) \<le> 57)"

definition digit_val :: "char \<Rightarrow> nat" where
  "digit_val c = of_char c - 48"

text \<open>
  The digit part of a decimal literal: digits, with single underscores allowed between
  two digits. \<open>digits_value acc s\<close> is \<open>None\<close> where \<open>int\<close> raises \<open>ValueError\<close>.
\<close>

fun digits_value :: "nat \<Rightarrow> string \<Rightarrow> nat option" where
  "digits_value acc [] = Some acc"
| "digits_value acc [c] = (if py_isdigit c then Some (acc * 10 + digit_val c) else None)"
| "digits_value acc (c # d # cs) =
     (if py_isdigit c then
        (if d = CHR ''_'' then
           (case cs of [] \<Rightarrow> None
            | e # es \<Rightarrow> if py_isdigit e then digits_value (acc * 10 + digit_val c) cs else None)
         else digits_value (acc * 10 + digit_val c) (d # cs))
      else None)"

definition py_strip :: "string \<Rightarrow> string" where
  "py_strip s = rev (dropWhile py_isspace (rev (dropWhile py_isspace s)))"

text \<open>
  \<open>int(s)\<close> for a string: optional whitespace around, an optional sign, then the digit
  part. A literal of more than 4300 digits (the interpreter's default limit, leading
  zeros counted, underscores not) is refused with \<open>ValueError\<close>.
\<close>

definition int_of_str :: "string \<Rightarrow> exn + int" where
  "int_of_str s =
     (let t = py_strip s;
          neg = (case t of c # _ \<Rightarrow> c = CHR ''-'' | [] \<Rightarrow> False);
          body = (case t of c # cs \<Rightarrow> if c = CHR ''-'' \<or> c = CHR ''+'' then cs else t | [] \<Rightarrow> [])
      in if body = [] then Inl ValueError
         else if 4300 < length (filter py_isdigit body) then Inl ValueError
         else (case digits_value 0 body of
                 None \<Rightarrow> Inl ValueError
               | Some n \<Rightarrow> Inr (if neg then - int n else int n)))"

fun py_int :: "pyval \<Rightarrow> exn + int" where
  "py_int (PInt n) = Inr n"
| "py_int (PBool b) = Inr (if b then 1 else 0)"
| "py_int (PStr s) = int_of_str s"
| "py_int PNone = Inl TypeError"

subsection \<open>\<open>s.replace(old, new)\<close>\<close>

function py_replace :: "string \<Rightarrow> string \<Rightarrow> string \<Rightarrow> string" where
  "py_replace old new [] = (if old = [] then new else [])"
| "py_replace old new (c # cs) =
     (if old = [] then new @ c # py_replace old new cs
      else if prefix old (c # cs) then new @ py_replace old new (drop (length old) (c # cs))
      else c # py_replace old new cs)"
  by pat_completeness auto
termination
  by (relation "measure (\<lambda>(old, new, s). length s)") auto

text \<open>\<open>x.replace(...)\<close> on a value: only \<open>str\<close> has the method.\<close>

fun py_replace_val :: "pyval \<Rightarrow> string \<Rightarrow> string \<Rightarrow> exn + string" where
  "py_replace_val (PStr s) old new = Inr (py_replace old new s)"
| "py_replace_val _ old new = Inl AttributeError"

text \<open>\<open>occurs p s\<close>: the string \<open>p\<close> is a substring of \<open>s\<close> (Python's \<open>p in s\<close>).\<close>

fun occurs :: "string \<Rightarrow> string \<Rightarrow> bool" where
  "occurs p [] = (p = [])"
| "occurs p (c # cs) = (prefix p (c # cs) \<or> occurs p cs)"

subsection \<open>\<open>datetime.fromtimestamp(n)\<close>\<close>

text \<open>
  A \<open>datetime\<close> is represented by the epoch second it denotes. The bounds are those of
  the interpreter on Linux with a 64-bit \<open>time_t\<close> and the process in UTC. A value that
  does not fit \<open>time_t\<close> is an \<open>OverflowError\<close>; one whose year does not fit the C
  \<open>struct tm\<close> is an \<open>OSError\<close>; one whose year is outside 1 to 9999 is a \<open>ValueError\<close>.
  The constructor also converts the instant one day earlier, to detect a repeated local
  hour, so the first day of year 1 is refused as well: the least accepted value is
  \<open>0001-01-02 00:00:00\<close>.
\<close>

definition fromtimestamp :: "int \<Rightarrow> exn + int" where
  "fromtimestamp n =
     (if n < - 9223372036854775808 \<or> 9223372036854775807 < n then Inl OverflowError
      else if n < - 67768040609740800 \<or> 67768036191676800 \<le> n then Inl OSError
      else if n < - 62135510400 \<or> 253402300800 \<le> n then Inl ValueError
      else Inr n)"

section \<open>The API response and the parameters of one \<open>INSERT\<close>\<close>

text \<open>
  The body that \<open>response.json()\<close> returns, as far as the collectors read it:
  \<open>departure\<close> is \<open>data['departures']['departure']\<close> (\<open>None\<close> when either key is
  absent, so that the two \<open>get\<close> defaults yield the empty list), \<open>timestamp\<close> is
  \<open>data['timestamp']\<close> and \<open>standardname\<close> is \<open>data['stationinfo']['standardname']\<close>
  (\<open>None\<close> when either key is absent). A body of another shape makes one of the
  \<open>get\<close> calls raise and is a failed fetch (\<open>Failed\<close>) below.
\<close>

record response =
  departure :: "pydict list option"
  timestamp :: "pyval option"
  standardname :: "pyval option"

datatype fetch = Failed exn | Body response

text \<open>
  Lines 76 to 78 of \<open>collect_station\<close> (38 to 40 of \<open>fetch_and_store_liveboard\<close>):
  the departure list, \<open>collected_at\<close> and \<open>station_name\<close>, in the order the source
  evaluates them.
\<close>

definition departures_of :: "response \<Rightarrow> pydict list" where
  "departures_of data = (case departure data of None \<Rightarrow> [] | Some ds \<Rightarrow> ds)"

definition collected_at_of :: "response \<Rightarrow> exn + int" where
  "collected_at_of data =
     (case py_int (case timestamp data of None \<Rightarrow> PInt 0 | Some v \<Rightarrow> v) of
        Inl e \<Rightarrow> Inl e
      | Inr n \<Rightarrow> fromtimestamp n)"

definition station_name_of :: "string \<Rightarrow> response \<Rightarrow> pyval" where
  "station_name_of stn data =
     (case standardname data of None \<Rightarrow> PStr stn | Some v \<Rightarrow> v)"

text \<open>
  The tuple of query parameters built for one departure (lines 96 to 104, and 61 to 69):
  its components are evaluated left to right and the first exception wins.
\<close>

record params =
  p_station :: pyval
  p_train_id :: string
  p_vehicle :: pyval
  p_platform :: pyval
  p_scheduled_time :: int
  p_delay_seconds :: int
  p_cancelled :: bool
  p_destination :: pyval
  p_collected_at :: int

definition dep_params :: "pyval \<Rightarrow> int \<Rightarrow> pydict \<Rightarrow> exn + params" where
  "dep_params station_name collected_at dep =
     (case py_replace_val (py_get dep ''vehicle'' (PStr [])) ''BE.NMBS.'' [] of
        Inl e \<Rightarrow> Inl e
      | Inr tid \<Rightarrow>
     (case py_int (py_get dep ''time'' (PInt 0)) of
        Inl e \<Rightarrow> Inl e
      | Inr t \<Rightarrow>
     (case py_int (py_get dep ''delay'' (PInt 0)) of
        Inl e \<Rightarrow> Inl e
      | Inr dl \<Rightarrow>
     (case py_int (py_get dep ''canceled'' (PInt 0)) of
        Inl e \<Rightarrow> Inl e
      | Inr c \<Rightarrow>
          Inr \<lparr> p_station = station_name,
                p_train_id = tid,
                p_vehicle = py_get dep ''vehicle'' (PStr []),
                p_platform = py_get dep ''platform'' (PStr []),
                p_scheduled_time = t,
                p_delay_seconds = dl,
                p_cancelled = (c = 1),
                p_destination = py_get dep ''station'' (PStr []),
                p_collected_at = collected_at \<rparr>))))"

section \<open>The store\<close>

text \<open>
  A row of \<open>departures_raw\<close> holds the nine inserted columns. The surrogate \<open>id\<close> and
  \<open>created_at\<close> are assigned by the server and no statement of the collectors reads
  them; they are left out. Timestamps are epoch seconds.
\<close>

record row =
  station :: string
  train_id :: string
  vehicle :: "string option"
  platform :: "string option"
  scheduled_time :: int
  delay_seconds :: int
  cancelled :: bool
  destination :: "string option"
  collected_at :: int

text \<open>
  Modelled from the spec: the natural-key constraint \<open>natural_key\<close>, a uniqueness
  constraint on \<open>(station, train_id, scheduled_time)\<close>. No statement of the sources
  declares it (\<open>ensure_schema\<close> below creates the table without it); a table made
  elsewhere, which \<open>CREATE TABLE IF NOT EXISTS\<close> leaves as it is, may have it. A table
  is this property of its definition and its rows, in insertion order.
\<close>

record table =
  natural_key :: bool
  rows :: "row list"

type_synonym db = "table option"

subsection \<open>Binding a parameter to a column\<close>

function dec_nat :: "nat \<Rightarrow> string" where
  "dec_nat n = (if n < 10 then [char_of (48 + n)] else dec_nat (n div 10) @ [char_of (48 + n mod 10)])"
  by pat_completeness auto
termination
  by (relation "measure id") auto

definition dec_int :: "int \<Rightarrow> string" where
  "dec_int i = (if i < 0 then CHR ''-'' # dec_nat (nat (- i)) else dec_nat (nat i))"

text \<open>
  The driver renders a parameter as an SQL literal; a \<open>str\<close> with a NUL character is
  refused by the driver itself (\<open>ValueError\<close>), before anything is sent. The server
  converts a number or a boolean assigned to a character column to its text.
\<close>

fun driver_ok :: "pyval \<Rightarrow> bool" where
  "driver_ok (PStr s) = (CHR 0x00 \<notin> set s)"
| "driver_ok _ = True"

fun text_of :: "pyval \<Rightarrow> string option" where
  "text_of PNone = None"
| "text_of (PStr s) = Some s"
| "text_of (PInt n) = Some (dec_int n)"
| "text_of (PBool b) = Some (if b then ''true'' else ''false'')"

text \<open>
  \<open>VARCHAR(n)\<close>: a longer value is an error unless the excess characters are all
  spaces, in which case it is truncated.
\<close>

definition varchar :: "nat \<Rightarrow> string option \<Rightarrow> exn + string option" where
  "varchar n v =
     (case v of
        None \<Rightarrow> Inr None
      | Some s \<Rightarrow>
          if length s \<le> n then Inr (Some s)
          else if list_all (\<lambda>c. c = CHR 0x20) (drop n s) then Inr (Some (take n s))
          else Inl DataError)"

text \<open>\<open>NOT NULL\<close>.\<close>

definition not_null :: "string option \<Rightarrow> exn + string" where
  "not_null v = (case v of None \<Rightarrow> Inl IntegrityError | Some s \<Rightarrow> Inr s)"

text \<open>\<open>to_timestamp(n)\<close> into \<open>TIMESTAMP\<close>, and a number into \<open>INT\<close>.\<close>

definition to_timestamp :: "int \<Rightarrow> exn + int" where
  "to_timestamp n =
     (if - 210866803200 \<le> n \<and> n < 9224318016000 then Inr n else Inl DataError)"

definition int4 :: "int \<Rightarrow> exn + int" where
  "int4 n = (if - 2147483648 \<le> n \<and> n \<le> 2147483647 then Inr n else Inl DataError)"

subsection \<open>The \<open>INSERT\<close> statement against the table definition\<close>

text \<open>
  The columns as \<open>ensure_schema\<close> declares them: \<open>station VARCHAR(100) NOT NULL\<close>,
  \<open>train_id VARCHAR(50) NOT NULL\<close>, \<open>vehicle VARCHAR(50)\<close>, \<open>platform VARCHAR(10)\<close>,
  \<open>scheduled_time TIMESTAMP NOT NULL\<close>, \<open>delay_seconds INT\<close>, \<open>cancelled BOOLEAN\<close>,
  \<open>destination VARCHAR(100)\<close>, \<open>collected_at TIMESTAMP NOT NULL\<close>. The values are
  converted first (\<open>DataError\<close>) and the \<open>NOT NULL\<close> constraints checked after
  (\<open>IntegrityError\<close>).
\<close>

definition server_row :: "params \<Rightarrow> exn + row" where
  "server_row p =
     (case varchar 100 (text_of (p_station p)) of Inl e \<Rightarrow> Inl e | Inr st \<Rightarrow>
     (case varchar 50 (Some (p_train_id p)) of Inl e \<Rightarrow> Inl e | Inr tid \<Rightarrow>
     (case varchar 50 (text_of (p_vehicle p)) of Inl e \<Rightarrow> Inl e | Inr veh \<Rightarrow>
     (case varchar 10 (text_of (p_platform p)) of Inl e \<Rightarrow> Inl e | Inr pl \<Rightarrow>
     (case to_timestamp (p_scheduled_time p) of Inl e \<Rightarrow> Inl e | Inr t \<Rightarrow>
     (case int4 (p_delay_seconds p) of Inl e \<Rightarrow> Inl e | Inr dl \<Rightarrow>
     (case varchar 100 (text_of (p_destination p)) of Inl e \<Rightarrow> Inl e | Inr dest \<Rightarrow>
     (case not_null st of Inl e \<Rightarrow> Inl e | Inr st' \<Rightarrow>
     (case not_null tid of Inl e \<Rightarrow> Inl e | Inr tid' \<Rightarrow>
        Inr \<lparr> station = st', train_id = tid', vehicle = veh, platform = pl,
              scheduled_time = t, delay_seconds = dl, cancelled = p_cancelled p,
              destination = dest, collected_at = p_collected_at p \<rparr>)))))))))"

definition key :: "row \<Rightarrow> string \<times> string \<times> int" where
  "key r = (station r, train_id r, scheduled_time r)"

subsection \<open>A connection and its transaction\<close>

text \<open>
  A connection holds the committed state it was opened on, the rows inserted by the
  open transaction and whether that transaction has failed. The driver opens a
  transaction with the first statement. After a statement has failed on the server,
  every further statement of the same transaction is refused until \<open>rollback\<close>, and
  \<open>commit\<close> on a failed transaction discards it.
\<close>

record conn =
  base :: db
  pending :: "row list"
  aborted :: bool

definition connect :: "db \<Rightarrow> conn" where
  "connect d = \<lparr> base = d, pending = [], aborted = False \<rparr>"

definition rollback :: "conn \<Rightarrow> conn" where
  "rollback c = c\<lparr> pending := [], aborted := False \<rparr>"

definition commit :: "conn \<Rightarrow> conn" where
  "commit c =
     (if aborted c then rollback c
      else c\<lparr> base := map_option (\<lambda>t. t\<lparr> rows := rows t @ pending c \<rparr>) (base c),
              pending := [] \<rparr>)"

definition close :: "conn \<Rightarrow> db" where
  "close c = base c"

text \<open>\<open>cursor.execute(INSERT ..., params)\<close>: the exception raised, if any, and the connection after.\<close>

definition execute_insert :: "conn \<Rightarrow> params \<Rightarrow> exn option \<times> conn" where
  "execute_insert c p =
     (if \<not> (driver_ok (p_station p) \<and> driver_ok (PStr (p_train_id p)) \<and> driver_ok (p_vehicle p)
             \<and> driver_ok (p_platform p) \<and> driver_ok (p_destination p))
      then (Some ValueError, c)
      else if aborted c then (Some InFailedSqlTransaction, c)
      else (case base c of
              None \<Rightarrow> (Some ProgrammingError, c\<lparr> aborted := True \<rparr>)
            | Some t \<Rightarrow>
               (case server_row p of
                  Inl e \<Rightarrow> (Some e, c\<lparr> aborted := True \<rparr>)
                | Inr r \<Rightarrow>
                    if natural_key t \<and> list_ex (\<lambda>r'. key r' = key r) (rows t @ pending c)
                    then (Some IntegrityError, c\<lparr> aborted := True \<rparr>)
                    else (None, c\<lparr> pending := pending c @ [r] \<rparr>))))"

section \<open>The environment of a run\<close>

text \<open>
  What a run cannot decide by itself: the answer of the API for each station
  (\<open>requests.get\<close>, \<open>raise_for_status\<close> and \<open>response.json()\<close> together) and whether
  a connection to the database can be opened, for each place that opens one.
\<close>

datatype purpose = Schema | Station string | Stats

record env =
  api :: "string \<Rightarrow> fetch"
  connects :: "purpose \<Rightarrow> bool"

text \<open>
  Log records at the configured level (\<open>INFO\<close>) and above; \<open>logging.debug\<close> emits
  nothing at that level.
\<close>

datatype level = INFO | WARNING | ERROR

section \<open>\<open>scripts/github_collector.py\<close>\<close>

definition STATIONS :: "string list" where
  "STATIONS = [''Brussels-Central'', ''Antwerp-Central'', ''Ghent-Sint-Pieters'',
               ''Li'' @ [CHR 0xE8] @ ''ge-Guillemins'']"

text \<open>\<open>ensure_schema\<close>: \<open>CREATE TABLE IF NOT EXISTS\<close> with no uniqueness constraint.\<close>

definition ensure_schema :: "env \<Rightarrow> db \<Rightarrow> exn + db" where
  "ensure_schema e d =
     (if \<not> connects e Schema then Inl OperationalError
      else Inr (case d of
                  None \<Rightarrow> Some \<lparr> natural_key = False, rows = [] \<rparr>
                | Some t \<Rightarrow> Some t))"

text \<open>
  The \<open>for dep in departures\<close> loop of \<open>collect_station\<close>: both handlers call
  \<open>conn.rollback()\<close> and go on; \<open>inserted\<close> is kept.
\<close>

fun collect_station_loop :: "pyval \<Rightarrow> int \<Rightarrow> pydict list \<Rightarrow> nat \<times> conn \<Rightarrow> nat \<times> conn" where
  "collect_station_loop name t [] (inserted, c) = (inserted, c)"
| "collect_station_loop name t (dep # deps) (inserted, c) =
     (case dep_params name t dep of
        Inl e \<Rightarrow> collect_station_loop name t deps (inserted, rollback c)
      | Inr p \<Rightarrow>
         (case execute_insert c p of
            (Some e, c') \<Rightarrow> collect_station_loop name t deps (inserted, rollback c')
          | (None, c') \<Rightarrow> collect_station_loop name t deps (inserted + 1, c')))"

text \<open>
  \<open>collect_station\<close> returns the count; the model returns with it the log records
  and the database after the call.
\<close>

definition collect_station :: "env \<Rightarrow> string \<Rightarrow> db \<Rightarrow> nat \<times> level list \<times> db" where
  "collect_station e stn d =
     (case api e stn of
        Failed x \<Rightarrow> (0, [ERROR], d)
      | Body data \<Rightarrow>
         (case collected_at_of data of
            Inl x \<Rightarrow> (0, [ERROR], d)
          | Inr t \<Rightarrow>
              if departures_of data = [] then (0, [WARNING], d)
              else if \<not> connects e (Station stn) then (0, [ERROR], d)
              else (case collect_station_loop (station_name_of stn data) t
                           (departures_of data) (0, connect d) of
                      (inserted, c) \<Rightarrow> (inserted, [INFO], close (commit c)))))"

text \<open>The \<open>for station in STATIONS\<close> loop of \<open>main\<close>, with the count of each station.\<close>

fun collect_all :: "env \<Rightarrow> string list \<Rightarrow> db \<Rightarrow> nat list \<times> db" where
  "collect_all e [] d = ([], d)"
| "collect_all e (s # ss) d =
     (case collect_station e s d of
        (n, l, d') \<Rightarrow> (case collect_all e ss d' of (ns, d'') \<Rightarrow> (n # ns, d'')))"

text \<open>
  \<open>main\<close>: the exit code, the counts of the stations collected (their sum is the
  \<open>total\<close> that is logged) and the database after the run.
\<close>

definition main_on :: "string list \<Rightarrow> env \<Rightarrow> db \<Rightarrow> nat \<times> nat list \<times> db" where
  "main_on stations e d =
     (case ensure_schema e d of
        Inl x \<Rightarrow> (1, [], d)
      | Inr d1 \<Rightarrow>
         (case collect_all e stations d1 of
            (ns, d2) \<Rightarrow> if \<not> connects e Stats then (1, ns, d2) else (0, ns, d2)))"

definition main :: "env \<Rightarrow> db \<Rightarrow> nat \<times> nat list \<times> db" where
  "main e d = main_on STATIONS e d"

section \<open>\<open>dags/collector.py\<close>\<close>

text \<open>
  The loop of \<open>fetch_and_store_liveboard\<close>: the handler goes on without a rollback.
\<close>

fun fetch_and_store_loop :: "pyval \<Rightarrow> int \<Rightarrow> pydict list \<Rightarrow> nat \<times> conn \<Rightarrow> nat \<times> conn" where
  "fetch_and_store_loop name t [] (inserted_count, c) = (inserted_count, c)"
| "fetch_and_store_loop name t (dep # deps) (inserted_count, c) =
     (case dep_params name t dep of
        Inl e \<Rightarrow> fetch_and_store_loop name t deps (inserted_count, c)
      | Inr p \<Rightarrow>
         (case execute_insert c p of
            (Some e, c') \<Rightarrow> fetch_and_store_loop name t deps (inserted_count, c')
          | (None, c') \<Rightarrow> fetch_and_store_loop name t deps (inserted_count + 1, c')))"

text \<open>
  \<open>fetch_and_store_liveboard\<close>: the value returned or the exception raised again, the
  count pushed to XCom if any, the log records and the database after the call.
\<close>

definition fetch_and_store_liveboard ::
    "env \<Rightarrow> string \<Rightarrow> db \<Rightarrow> (exn + nat) \<times> nat option \<times> level list \<times> db" where
  "fetch_and_store_liveboard e stn d =
     (case api e stn of
        Failed x \<Rightarrow> (Inl x, None, [INFO, ERROR], d)
      | Body data \<Rightarrow>
         (case collected_at_of data of
            Inl x \<Rightarrow> (Inl x, None, [INFO, ERROR], d)
          | Inr t \<Rightarrow>
              if departures_of data = [] then (Inr 0, None, [INFO, WARNING], d)
              else if \<not> connects e (Station stn) then (Inl OperationalError, None, [INFO, ERROR], d)
              else (case fetch_and_store_loop (station_name_of stn data) t
                           (departures_of data) (0, connect d) of
                      (inserted_count, c) \<Rightarrow>
                        (Inr inserted_count, Some inserted_count, [INFO, INFO], close (commit c)))))"

section \<open>Predicates and sample data of the statements\<close>

text \<open>
  A raw departure as the data model types it: each field is absent or has a value of
  its type, that is, \<open>vehicle\<close> is a string and \<open>time\<close>, \<open>delay\<close> and \<open>canceled\<close> are
  numbers or strings that \<open>int\<close> converts.
\<close>

definition converts :: "pyval \<Rightarrow> bool" where
  "converts v = (case py_int v of Inl e \<Rightarrow> False | Inr n \<Rightarrow> True)"

definition well_formed_dep :: "pydict \<Rightarrow> bool" where
  "well_formed_dep dep =
     ((case py_get dep ''vehicle'' (PStr []) of PStr s \<Rightarrow> True | _ \<Rightarrow> False)
      \<and> converts (py_get dep ''time'' (PInt 0))
      \<and> converts (py_get dep ''delay'' (PInt 0))
      \<and> converts (py_get dep ''canceled'' (PInt 0)))"

text \<open>
  A batch runs clean on a connection when the parameters of every departure can be
  built and every \<open>INSERT\<close>, executed in order, succeeds.
\<close>

fun runs_clean :: "pyval \<Rightarrow> int \<Rightarrow> pydict list \<Rightarrow> conn \<Rightarrow> bool" where
  "runs_clean name t [] c = True"
| "runs_clean name t (dep # deps) c =
     (case dep_params name t dep of
        Inl e \<Rightarrow> False
      | Inr p \<Rightarrow> (case execute_insert c p of (Some e, c') \<Rightarrow> False | (None, c') \<Rightarrow> runs_clean name t deps c'))"

text \<open>
  The parameter records that a loop builds from a departure list, in order: a departure
  for which building the tuple raises is skipped by the handler. \<open>insert_each\<close> executes
  the \<open>INSERT\<close> for a list of records as the loop of \<open>fetch_and_store_liveboard\<close> does.
\<close>

fun built_records :: "pyval \<Rightarrow> int \<Rightarrow> pydict list \<Rightarrow> params list" where
  "built_records name t [] = []"
| "built_records name t (dep # deps) =
     (case dep_params name t dep of
        Inl e \<Rightarrow> built_records name t deps
      | Inr p \<Rightarrow> p # built_records name t deps)"

fun insert_each :: "params list \<Rightarrow> nat \<times> conn \<Rightarrow> nat \<times> conn" where
  "insert_each [] (n, c) = (n, c)"
| "insert_each (p # ps) (n, c) =
     (case execute_insert c p of
        (Some e, c') \<Rightarrow> insert_each ps (n, c')
      | (None, c') \<Rightarrow> insert_each ps (n + 1, c'))"

text \<open>
  The record of the normalizer as the specification words it, for a raw departure whose
  fields are absent or of their type: the resolved station name, the vehicle id with
  the carrier prefix removed, the raw vehicle id, the platform, the epoch seconds, the
  delay (0 when missing), the cancellation flag as a boolean, the destination, and the
  \<open>collected_at\<close> of the response.
\<close>

definition the_int :: "pyval \<Rightarrow> int" where
  "the_int v = (case py_int v of Inl e \<Rightarrow> 0 | Inr n \<Rightarrow> n)"

fun the_str :: "pyval \<Rightarrow> string" where
  "the_str (PStr s) = s"
| "the_str _ = []"

definition expected_record :: "pyval \<Rightarrow> int \<Rightarrow> pydict \<Rightarrow> params" where
  "expected_record name t dep =
     \<lparr> p_station = name,
       p_train_id = py_replace ''BE.NMBS.'' [] (the_str (py_get dep ''vehicle'' (PStr []))),
       p_vehicle = py_get dep ''vehicle'' (PStr []),
       p_platform = py_get dep ''platform'' (PStr []),
       p_scheduled_time = the_int (py_get dep ''time'' (PInt 0)),
       p_delay_seconds = the_int (py_get dep ''delay'' (PInt 0)),
       p_cancelled = (the_int (py_get dep ''canceled'' (PInt 0)) = 1),
       p_destination = py_get dep ''station'' (PStr []),
       p_collected_at = t \<rparr>"

text \<open>Sample departures, responses and environments.\<close>

definition dep_ic1 :: pydict where
  "dep_ic1 = [(''vehicle'', PStr ''BE.NMBS.IC1''), (''platform'', PStr ''3''), (''time'', PStr ''1000''),
              (''delay'', PStr ''60''), (''canceled'', PStr ''1''), (''station'', PStr ''Gent'')]"

definition dep_ic2 :: pydict where
  "dep_ic2 = [(''vehicle'', PStr ''BE.NMBS.IC2''), (''time'', PInt 2000)]"

definition dep_ic3 :: pydict where
  "dep_ic3 = [(''vehicle'', PStr ''BE.NMBS.IC3''), (''time'', PInt 3000)]"

definition dep_soon :: pydict where
  "dep_soon = [(''vehicle'', PStr ''BE.NMBS.IC9''), (''time'', PStr ''soon'')]"

definition body_of :: "pydict list \<Rightarrow> response" where
  "body_of deps = \<lparr> departure = Some deps, timestamp = Some (PInt 5),
                    standardname = Some (PStr ''Brussels'') \<rparr>"

definition serving :: "pydict list \<Rightarrow> env" where
  "serving deps = \<lparr> api = (\<lambda>s. Body (body_of deps)), connects = (\<lambda>p. True) \<rparr>"

definition row_ic1 :: row where
  "row_ic1 = \<lparr> station = ''Brussels'', train_id = ''IC1'', vehicle = Some ''BE.NMBS.IC1'',
               platform = Some ''3'', scheduled_time = 1000, delay_seconds = 60, cancelled = True,
               destination = Some ''Gent'', collected_at = 5 \<rparr>"

definition row_ic2 :: row where
  "row_ic2 = \<lparr> station = ''Brussels'', train_id = ''IC2'', vehicle = Some ''BE.NMBS.IC2'',
               platform = Some [], scheduled_time = 2000, delay_seconds = 0, cancelled = False,
               destination = Some [], collected_at = 5 \<rparr>"

definition row_ic3 :: row where
  "row_ic3 = \<lparr> station = ''Brussels'', train_id = ''IC3'', vehicle = Some ''BE.NMBS.IC3'',
               platform = Some [], scheduled_time = 3000, delay_seconds = 0, cancelled = False,
               destination = Some [], collected_at = 5 \<rparr>"

definition stats_down :: env where
  "stats_down = \<lparr> api = (\<lambda>s. Body (body_of [dep_ic1])), connects = (\<lambda>p. p \<noteq> Stats) \<rparr>"

definition schema_down :: env where
  "schema_down = \<lparr> api = (\<lambda>s. Body (body_of [dep_ic1])), connects = (\<lambda>p. p \<noteq> Schema) \<rparr>"

definition body_without_header :: response where
  "body_without_header = \<lparr> departure = Some [dep_ic2], timestamp = None, standardname = None \<rparr>"

definition body_bad_timestamp :: response where
  "body_bad_timestamp = \<lparr> departure = Some [], timestamp = Some (PStr ''abc''),
                           standardname = Some (PStr ''Brussels'') \<rparr>"

definition serving_bad_timestamp :: env where
  "serving_bad_timestamp = \<lparr> api = (\<lambda>s. Body body_bad_timestamp), connects = (\<lambda>p. True) \<rparr>"

definition one_down :: env where
  "one_down = \<lparr> api = (\<lambda>s. if s = ''B'' then Failed RequestException else Body (body_of [dep_ic1])),
                connects = (\<lambda>p. True) \<rparr>"

section \<open>Properties of the string and field conversions\<close>

lemma int_of_str_whitespace:
  "int_of_str (CHR 0x85 # ''5'' @ [CHR 0xA0]) = Inr 5
   \<and> int_of_str (CHR 0x1C # ''5'') = Inl ValueError
   \<and> int_of_str ''1_0'' = Inr 10
   \<and> int_of_str '' -7 '' = Inr (- 7)"
  by code_simp

lemma filter_dropWhile_disjoint:
  "(\<And>x. P x \<Longrightarrow> \<not> Q x) \<Longrightarrow> filter Q (dropWhile P xs) = filter Q xs"
  by (induction xs) auto

lemma space_not_digit: "py_isspace c \<Longrightarrow> \<not> py_isdigit c"
  by (auto simp: py_isspace_def py_isdigit_def)

lemma digits_of_strip: "filter py_isdigit (py_strip s) = filter py_isdigit s"
proof -
  have "filter py_isdigit (py_strip s)
          = rev (filter py_isdigit (dropWhile py_isspace (rev (dropWhile py_isspace s))))"
    by (simp add: py_strip_def rev_filter)
  also have "\<dots> = rev (filter py_isdigit (rev (dropWhile py_isspace s)))"
    by (simp add: filter_dropWhile_disjoint space_not_digit)
  also have "\<dots> = filter py_isdigit (dropWhile py_isspace s)"
    by (simp add: rev_filter)
  also have "\<dots> = filter py_isdigit s"
    by (simp add: filter_dropWhile_disjoint space_not_digit)
  finally show ?thesis .
qed

lemma int_of_str_digit_limit:
  assumes "4300 < length (filter py_isdigit s)"
  shows "int_of_str s = Inl ValueError"
proof -
  have sign: "\<not> py_isdigit (CHR ''-'')" "\<not> py_isdigit (CHR ''+'')"
    by (simp_all add: py_isdigit_def)
  let ?t = "py_strip s"
  let ?body = "case ?t of c # cs \<Rightarrow> if c = CHR ''-'' \<or> c = CHR ''+'' then cs else ?t | [] \<Rightarrow> []"
  have "filter py_isdigit ?body = filter py_isdigit ?t"
    using sign by (cases ?t) auto
  then have "4300 < length (filter py_isdigit ?body)"
    using assms by (simp add: digits_of_strip)
  then show ?thesis
    by (auto simp: int_of_str_def Let_def)
qed

lemma py_replace_prefix:
  "old \<noteq> [] \<Longrightarrow> py_replace old new (old @ rest) = new @ py_replace old new rest"
  by (cases old) simp_all

lemma py_replace_absent:
  "old \<noteq> [] \<Longrightarrow> \<not> occurs old s \<Longrightarrow> py_replace old new s = s"
  by (induction s) simp_all

lemma dep_params_train_id:
  assumes "dep_params name t dep = Inr p" and "map_of dep ''vehicle'' = Some (PStr v)"
  shows "p_train_id p = py_replace ''BE.NMBS.'' [] v"
  using assms
  by (auto simp: dep_params_def py_get_def split: sum.splits)

text \<open>
  C4 (as amended). \<open>train_id\<close> is the vehicle id with every occurrence of
  \<open>"BE.NMBS."\<close> removed, wherever it stands. For an id that starts with the prefix,
  \<open>train_id\<close> is what the removal leaves of the remainder, which is the remainder itself
  when \<open>"BE.NMBS."\<close> does not occur in it again; an id in which \<open>"BE.NMBS."\<close> occurs
  nowhere is passed through unchanged.
\<close>

theorem train_id_removes_every_occurrence:
  assumes "dep_params name t dep = Inr p" and "map_of dep ''vehicle'' = Some (PStr v)"
  shows "p_train_id p = py_replace ''BE.NMBS.'' [] v
       \<and> (\<forall>rest. v = ''BE.NMBS.'' @ rest \<longrightarrow> p_train_id p = py_replace ''BE.NMBS.'' [] rest)
       \<and> (\<forall>rest. v = ''BE.NMBS.'' @ rest \<and> \<not> occurs ''BE.NMBS.'' rest \<longrightarrow> p_train_id p = rest)
       \<and> (\<not> occurs ''BE.NMBS.'' v \<longrightarrow> p_train_id p = v)"
proof -
  have tid: "p_train_id p = py_replace ''BE.NMBS.'' [] v"
    using assms by (rule dep_params_train_id)
  have pre: "py_replace ''BE.NMBS.'' [] (''BE.NMBS.'' @ rest) = py_replace ''BE.NMBS.'' [] rest" for rest
    using py_replace_prefix [of "''BE.NMBS.''" "[]" rest] by simp
  have ab: "\<not> occurs ''BE.NMBS.'' s \<Longrightarrow> py_replace ''BE.NMBS.'' [] s = s" for s
    by (rule py_replace_absent) simp_all
  show ?thesis using tid pre ab by metis
qed

theorem train_id_removes_every_occurrence_witness:
  "dep_params (PStr ''Gent'') 7 [(''vehicle'', PStr ''BE.NMBS.IC1'')] =
       Inr \<lparr> p_station = PStr ''Gent'', p_train_id = ''IC1'', p_vehicle = PStr ''BE.NMBS.IC1'',
             p_platform = PStr [], p_scheduled_time = 0, p_delay_seconds = 0, p_cancelled = False,
             p_destination = PStr [], p_collected_at = 7 \<rparr>
   \<and> map_of [(''vehicle'', PStr ''BE.NMBS.IC1'')] ''vehicle'' = Some (PStr (''BE.NMBS.'' @ ''IC1''))
   \<and> \<not> occurs ''BE.NMBS.'' ''IC1''
   \<and> py_replace ''BE.NMBS.'' [] ''BE.NMBS.IC1'' = ''IC1''
   \<and> dep_params (PStr ''Gent'') 7 [(''vehicle'', PStr ''IC7'')] =
       Inr \<lparr> p_station = PStr ''Gent'', p_train_id = ''IC7'', p_vehicle = PStr ''IC7'',
             p_platform = PStr [], p_scheduled_time = 0, p_delay_seconds = 0, p_cancelled = False,
             p_destination = PStr [], p_collected_at = 7 \<rparr>
   \<and> map_of [(''vehicle'', PStr ''IC7'')] ''vehicle'' = Some (PStr ''IC7'')
   \<and> \<not> occurs ''BE.NMBS.'' ''IC7''
   \<and> py_replace ''BE.NMBS.'' [] ''IC7'' = ''IC7''"
proof -
  have a: "dep_params (PStr ''Gent'') 7 [(''vehicle'', PStr ''BE.NMBS.IC1'')] =
       Inr \<lparr> p_station = PStr ''Gent'', p_train_id = ''IC1'', p_vehicle = PStr ''BE.NMBS.IC1'',
             p_platform = PStr [], p_scheduled_time = 0, p_delay_seconds = 0, p_cancelled = False,
             p_destination = PStr [], p_collected_at = 7 \<rparr>"
    by (simp add: dep_params_def py_get_def)
  have b: "map_of [(''vehicle'', PStr ''BE.NMBS.IC1'')] ''vehicle'' = Some (PStr (''BE.NMBS.'' @ ''IC1''))"
    by simp
  have c: "\<not> occurs ''BE.NMBS.'' ''IC1''" by simp
  have a': "dep_params (PStr ''Gent'') 7 [(''vehicle'', PStr ''IC7'')] =
       Inr \<lparr> p_station = PStr ''Gent'', p_train_id = ''IC7'', p_vehicle = PStr ''IC7'',
             p_platform = PStr [], p_scheduled_time = 0, p_delay_seconds = 0, p_cancelled = False,
             p_destination = PStr [], p_collected_at = 7 \<rparr>"
    by (simp add: dep_params_def py_get_def)
  have b': "map_of [(''vehicle'', PStr ''IC7'')] ''vehicle'' = Some (PStr ''IC7'')"
    by simp
  have c': "\<not> occurs ''BE.NMBS.'' ''IC7''" by simp
  have first: "py_replace ''BE.NMBS.'' [] ''BE.NMBS.IC1'' = ''IC1''"
    using train_id_removes_every_occurrence [OF a b] c by simp
  have second: "py_replace ''BE.NMBS.'' [] ''IC7'' = ''IC7''"
    using train_id_removes_every_occurrence [OF a' b'] c' by simp
  from a b c first a' b' c' second show ?thesis by (intro conjI)
qed

text \<open>
  C4 as stated fails: a second occurrence right after the prefix is removed as well,
  and an id without the prefix is changed when \<open>"BE.NMBS."\<close> occurs inside it.
\<close>

theorem train_id_prefix_once_counterexample:
  "prefix ''BE.NMBS.'' ''BE.NMBS.BE.NMBS.IC1''
   \<and> map_sum id p_train_id
        (dep_params (PStr ''Gent'') 7 [(''vehicle'', PStr ''BE.NMBS.BE.NMBS.IC1'')]) = Inr ''IC1''
   \<and> drop (length ''BE.NMBS.'') ''BE.NMBS.BE.NMBS.IC1'' = ''BE.NMBS.IC1''
   \<and> \<not> prefix ''BE.NMBS.'' ''IC.BE.NMBS.1''
   \<and> map_sum id p_train_id
        (dep_params (PStr ''Gent'') 7 [(''vehicle'', PStr ''IC.BE.NMBS.1'')]) = Inr ''IC.1''"
  by (simp add: dep_params_def py_get_def)

lemma dep_params_succeeds_iff:
  "(\<exists>p. dep_params name t dep = Inr p) \<longleftrightarrow> well_formed_dep dep"
  by (cases "py_get dep ''vehicle'' (PStr [])")
     (auto simp: dep_params_def well_formed_dep_def converts_def split: sum.splits)

lemma dep_params_collected_at:
  "dep_params name t dep = Inr p \<Longrightarrow> p_collected_at p = t \<and> p_station p = name"
  by (auto simp: dep_params_def split: sum.splits)

lemma dep_params_well_formed:
  "well_formed_dep dep \<Longrightarrow> dep_params name t dep = Inr (expected_record name t dep)"
  by (cases "py_get dep ''vehicle'' (PStr [])")
     (auto simp: dep_params_def well_formed_dep_def converts_def expected_record_def the_int_def
           split: sum.splits)

lemma dep_params_ill_formed:
  "\<not> well_formed_dep dep \<Longrightarrow> \<exists>e. dep_params name t dep = Inl e"
  by (cases "py_get dep ''vehicle'' (PStr [])")
     (auto simp: dep_params_def well_formed_dep_def converts_def split: sum.splits)

lemma built_records_eq:
  "built_records name t deps = map (expected_record name t) (filter well_formed_dep deps)"
proof (induction deps)
  case Nil
  then show ?case by simp
next
  case (Cons dep deps)
  show ?case
  proof (cases "well_formed_dep dep")
    case True
    then show ?thesis using Cons dep_params_well_formed [of dep name t] by simp
  next
    case False
    then obtain e where "dep_params name t dep = Inl e"
      using dep_params_ill_formed by blast
    then show ?thesis using Cons False by simp
  qed
qed

lemma loop_inserts_built_records:
  "fetch_and_store_loop name t deps (n, c) = insert_each (built_records name t deps) (n, c)"
  by (induction deps arbitrary: n c) (auto split: sum.splits option.splits prod.splits)

lemma collected_at_is_timestamp:
  "collected_at_of data = Inr t \<Longrightarrow>
     py_int (case timestamp data of None \<Rightarrow> PInt 0 | Some v \<Rightarrow> v) = Inr t"
  by (auto simp: collected_at_of_def fromtimestamp_def split: sum.splits if_splits)

lemma length_filter_eq_iff: "length (filter P xs) = length xs \<longleftrightarrow> list_all P xs"
proof (induction xs)
  case Nil
  then show ?case by simp
next
  case (Cons x xs)
  show ?case using Cons length_filter_le [of P xs]
    by (auto simp del: length_filter_le)
qed

text \<open>
  C6 (as amended). For a response with a non-empty departure list, the collectors build
  exactly one record for each raw departure whose fields are absent or of their type
  (\<open>vehicle\<close> a string; \<open>time\<close>, \<open>delay\<close> and \<open>canceled\<close> convertible by \<open>int\<close>), in the
  order of the list and with the fields the specification gives, and no record for any
  other departure, which is skipped: there is one record per departure exactly when
  every departure is of that kind. All records carry the identical \<open>collected_at\<close>, the
  integer value of the response timestamp (0 when it is absent), computed once, and
  these records are what the loop hands to the \<open>INSERT\<close>.
\<close>

theorem one_record_per_well_formed_departure:
  assumes "collected_at_of data = Inr t"
    and "departures_of data \<noteq> []"
  shows "py_int (case timestamp data of None \<Rightarrow> PInt 0 | Some v \<Rightarrow> v) = Inr t
       \<and> built_records (station_name_of stn data) t (departures_of data)
           = map (expected_record (station_name_of stn data) t)
                 (filter well_formed_dep (departures_of data))
       \<and> (length (built_records (station_name_of stn data) t (departures_of data))
             = length (departures_of data)
           \<longleftrightarrow> list_all well_formed_dep (departures_of data))
       \<and> list_all (\<lambda>p. p_collected_at p = t \<and> p_station p = station_name_of stn data)
           (built_records (station_name_of stn data) t (departures_of data))
       \<and> (\<forall>n c. fetch_and_store_loop (station_name_of stn data) t (departures_of data) (n, c)
                 = insert_each (built_records (station_name_of stn data) t (departures_of data)) (n, c))"
proof -
  let ?name = "station_name_of stn data"
  let ?deps = "departures_of data"
  have a: "py_int (case timestamp data of None \<Rightarrow> PInt 0 | Some v \<Rightarrow> v) = Inr t"
    using assms(1) by (rule collected_at_is_timestamp)
  have b: "built_records ?name t ?deps = map (expected_record ?name t) (filter well_formed_dep ?deps)"
    by (rule built_records_eq)
  have c: "length (built_records ?name t ?deps) = length ?deps \<longleftrightarrow> list_all well_formed_dep ?deps"
    using length_filter_eq_iff [of well_formed_dep ?deps] by (simp add: b)
  have d: "list_all (\<lambda>p. p_collected_at p = t \<and> p_station p = ?name) (built_records ?name t ?deps)"
    by (simp add: b list_all_iff expected_record_def)
  have e: "\<forall>n c. fetch_and_store_loop ?name t ?deps (n, c) = insert_each (built_records ?name t ?deps) (n, c)"
    by (simp add: loop_inserts_built_records)
  from a b c d e show ?thesis by (intro conjI)
qed

theorem one_record_per_well_formed_departure_witness:
  "collected_at_of (body_of [dep_ic1, dep_ic2]) = Inr 5
   \<and> departures_of (body_of [dep_ic1, dep_ic2]) \<noteq> []
   \<and> py_int (case timestamp (body_of [dep_ic1, dep_ic2]) of None \<Rightarrow> PInt 0 | Some v \<Rightarrow> v) = Inr 5
   \<and> list_all (\<lambda>p. p_collected_at p = 5
                    \<and> p_station p = station_name_of ''Gent'' (body_of [dep_ic1, dep_ic2]))
        (built_records (station_name_of ''Gent'' (body_of [dep_ic1, dep_ic2])) 5
           (departures_of (body_of [dep_ic1, dep_ic2])))
   \<and> collected_at_of body_without_header = Inr 0
   \<and> departures_of body_without_header \<noteq> []
   \<and> py_int (case timestamp body_without_header of None \<Rightarrow> PInt 0 | Some v \<Rightarrow> v) = Inr 0"
proof -
  have a: "collected_at_of (body_of [dep_ic1, dep_ic2]) = Inr 5"
    by (simp add: collected_at_of_def body_of_def fromtimestamp_def)
  have b: "departures_of (body_of [dep_ic1, dep_ic2]) \<noteq> []"
    by (simp add: departures_of_def body_of_def)
  have a': "collected_at_of body_without_header = Inr 0"
    by (simp add: collected_at_of_def body_without_header_def fromtimestamp_def)
  have b': "departures_of body_without_header \<noteq> []"
    by (simp add: departures_of_def body_without_header_def)
  note t = one_record_per_well_formed_departure [OF a b, of "''Gent''"]
  note t' = one_record_per_well_formed_departure [OF a' b', of "''Gent''"]
  from t have t1: "py_int (case timestamp (body_of [dep_ic1, dep_ic2]) of None \<Rightarrow> PInt 0 | Some v \<Rightarrow> v) = Inr 5"
    by (rule conjunct1)
  from t have t2: "list_all (\<lambda>p. p_collected_at p = 5
                    \<and> p_station p = station_name_of ''Gent'' (body_of [dep_ic1, dep_ic2]))
        (built_records (station_name_of ''Gent'' (body_of [dep_ic1, dep_ic2])) 5
           (departures_of (body_of [dep_ic1, dep_ic2])))"
    by (elim conjE)
  from t' have t3: "py_int (case timestamp body_without_header of None \<Rightarrow> PInt 0 | Some v \<Rightarrow> v) = Inr 0"
    by (rule conjunct1)
  from a b t1 t2 a' b' t3 show ?thesis by (intro conjI)
qed

text \<open>
  C6 as stated fails: of the three departures \<open>IC2\<close>, one whose time is \<open>"soon"\<close>, and
  \<open>IC3\<close>, the second raises \<open>ValueError\<close> in \<open>int\<close> and is skipped, so two records are
  built and two rows stored.
\<close>

theorem one_record_per_departure_counterexample:
  "departures_of (body_of [dep_ic2, dep_soon, dep_ic3]) = [dep_ic2, dep_soon, dep_ic3]
   \<and> collected_at_of (body_of [dep_ic2, dep_soon, dep_ic3]) = Inr 5
   \<and> dep_params (PStr ''Brussels'') 5 dep_soon = Inl ValueError
   \<and> length (built_records (PStr ''Brussels'') 5 [dep_ic2, dep_soon, dep_ic3]) = 2
   \<and> fetch_and_store_liveboard (serving [dep_ic2, dep_soon, dep_ic3]) ''Brussels-Central''
        (Some \<lparr> natural_key = False, rows = [] \<rparr>)
      = (Inr 2, Some 2, [INFO, INFO], Some \<lparr> natural_key = False, rows = [row_ic2, row_ic3] \<rparr>)"
  by code_simp

text \<open>
  C10. A departure whose present fields are of their type is converted without an
  exception, and each absent field takes its default: the empty string for \<open>vehicle\<close>,
  \<open>train_id\<close>, \<open>platform\<close> and the destination, 0 for the scheduled time (which the
  server turns into the epoch start) and the delay, false for \<open>cancelled\<close>. A departure
  with no field at all yields the record of all defaults. When the response has no
  \<open>stationinfo.standardname\<close>, the station is the station key the collector was called with.
\<close>

theorem absent_fields_take_defaults:
  assumes "well_formed_dep dep"
  shows "(\<exists>p. dep_params name t dep = Inr p
             \<and> (map_of dep ''vehicle'' = None \<longrightarrow> p_vehicle p = PStr [] \<and> p_train_id p = [])
             \<and> (map_of dep ''platform'' = None \<longrightarrow> p_platform p = PStr [])
             \<and> (map_of dep ''time'' = None \<longrightarrow> p_scheduled_time p = 0)
             \<and> (map_of dep ''delay'' = None \<longrightarrow> p_delay_seconds p = 0)
             \<and> (map_of dep ''canceled'' = None \<longrightarrow> \<not> p_cancelled p)
             \<and> (map_of dep ''station'' = None \<longrightarrow> p_destination p = PStr [])
             \<and> p_station p = name \<and> p_collected_at p = t)
       \<and> dep_params name t [] =
            Inr \<lparr> p_station = name, p_train_id = [], p_vehicle = PStr [], p_platform = PStr [],
                  p_scheduled_time = 0, p_delay_seconds = 0, p_cancelled = False,
                  p_destination = PStr [], p_collected_at = t \<rparr>
       \<and> to_timestamp 0 = Inr 0
       \<and> (standardname data = None \<longrightarrow> station_name_of stn data = PStr stn)"
proof -
  from assms obtain p where p: "dep_params name t dep = Inr p"
    using dep_params_succeeds_iff by blast
  have 1: "(map_of dep ''vehicle'' = None \<longrightarrow> p_vehicle p = PStr [] \<and> p_train_id p = [])"
    using p by (auto simp: dep_params_def py_get_def split: sum.splits)
  have 2: "(map_of dep ''platform'' = None \<longrightarrow> p_platform p = PStr [])"
    using p by (auto simp: dep_params_def py_get_def split: sum.splits)
  have 3: "(map_of dep ''time'' = None \<longrightarrow> p_scheduled_time p = 0)"
    using p by (auto simp: dep_params_def py_get_def split: sum.splits)
  have 4: "(map_of dep ''delay'' = None \<longrightarrow> p_delay_seconds p = 0)"
    using p by (auto simp: dep_params_def py_get_def split: sum.splits)
  have 5: "(map_of dep ''canceled'' = None \<longrightarrow> \<not> p_cancelled p)"
    using p by (auto simp: dep_params_def py_get_def split: sum.splits)
  have 6: "(map_of dep ''station'' = None \<longrightarrow> p_destination p = PStr [])"
    using p by (auto simp: dep_params_def py_get_def split: sum.splits)
  have 7: "p_station p = name \<and> p_collected_at p = t"
    using dep_params_collected_at [OF p] by simp
  have 8: "dep_params name t [] =
            Inr \<lparr> p_station = name, p_train_id = [], p_vehicle = PStr [], p_platform = PStr [],
                  p_scheduled_time = 0, p_delay_seconds = 0, p_cancelled = False,
                  p_destination = PStr [], p_collected_at = t \<rparr>"
    by (simp add: dep_params_def py_get_def)
  have 9: "to_timestamp 0 = Inr 0" by (simp add: to_timestamp_def)
  have 10: "(standardname data = None \<longrightarrow> station_name_of stn data = PStr stn)"
    by (simp add: station_name_of_def)
  have ex: "\<exists>p. dep_params name t dep = Inr p
             \<and> (map_of dep ''vehicle'' = None \<longrightarrow> p_vehicle p = PStr [] \<and> p_train_id p = [])
             \<and> (map_of dep ''platform'' = None \<longrightarrow> p_platform p = PStr [])
             \<and> (map_of dep ''time'' = None \<longrightarrow> p_scheduled_time p = 0)
             \<and> (map_of dep ''delay'' = None \<longrightarrow> p_delay_seconds p = 0)
             \<and> (map_of dep ''canceled'' = None \<longrightarrow> \<not> p_cancelled p)
             \<and> (map_of dep ''station'' = None \<longrightarrow> p_destination p = PStr [])
             \<and> p_station p = name \<and> p_collected_at p = t"
    using p 1 2 3 4 5 6 7 by (intro exI [of _ p]) simp
  from ex 8 9 10 show ?thesis by (intro conjI)
qed

theorem absent_fields_take_defaults_witness:
  "well_formed_dep dep_ic2
   \<and> map_of dep_ic2 ''platform'' = None \<and> map_of dep_ic2 ''delay'' = None
   \<and> map_of dep_ic2 ''canceled'' = None \<and> map_of dep_ic2 ''station'' = None
   \<and> (\<exists>p. dep_params (PStr ''Gent'') 5 dep_ic2 = Inr p
          \<and> p_platform p = PStr [] \<and> p_delay_seconds p = 0 \<and> \<not> p_cancelled p
          \<and> p_destination p = PStr [])
   \<and> well_formed_dep [(''platform'', PStr ''4'')]
   \<and> map_of [(''platform'', PStr ''4'')] ''vehicle'' = None
   \<and> map_of [(''platform'', PStr ''4'')] ''time'' = None
   \<and> (\<exists>p. dep_params (PStr ''Gent'') 5 [(''platform'', PStr ''4'')] = Inr p
          \<and> p_vehicle p = PStr [] \<and> p_train_id p = [] \<and> p_scheduled_time p = 0)
   \<and> standardname body_without_header = None
   \<and> station_name_of ''Gent'' body_without_header = PStr ''Gent''"
proof -
  have a: "well_formed_dep dep_ic2" by code_simp
  have b: "map_of dep_ic2 ''platform'' = None" "map_of dep_ic2 ''delay'' = None"
          "map_of dep_ic2 ''canceled'' = None" "map_of dep_ic2 ''station'' = None"
    by (simp_all add: dep_ic2_def)
  have a': "well_formed_dep [(''platform'', PStr ''4'')]" by code_simp
  have b': "map_of [(''platform'', PStr ''4'')] ''vehicle'' = None"
           "map_of [(''platform'', PStr ''4'')] ''time'' = None"
    by simp_all
  have c': "standardname body_without_header = None"
    by (simp add: body_without_header_def)
  note t = absent_fields_take_defaults [OF a, of "PStr ''Gent''" 5 body_without_header "''Gent''"]
  note t' = absent_fields_take_defaults [OF a', of "PStr ''Gent''" 5 body_without_header "''Gent''"]
  from t obtain p where p: "dep_params (PStr ''Gent'') 5 dep_ic2 = Inr p"
      "map_of dep_ic2 ''platform'' = None \<longrightarrow> p_platform p = PStr []"
      "map_of dep_ic2 ''delay'' = None \<longrightarrow> p_delay_seconds p = 0"
      "map_of dep_ic2 ''canceled'' = None \<longrightarrow> \<not> p_cancelled p"
      "map_of dep_ic2 ''station'' = None \<longrightarrow> p_destination p = PStr []"
    by (elim conjE exE)
  have e1: "\<exists>p. dep_params (PStr ''Gent'') 5 dep_ic2 = Inr p
          \<and> p_platform p = PStr [] \<and> p_delay_seconds p = 0 \<and> \<not> p_cancelled p
          \<and> p_destination p = PStr []"
    using p b by (intro exI [of _ p]) simp
  from t' obtain q where q: "dep_params (PStr ''Gent'') 5 [(''platform'', PStr ''4'')] = Inr q"
      "map_of [(''platform'', PStr ''4'')] ''vehicle'' = None \<longrightarrow> p_vehicle q = PStr [] \<and> p_train_id q = []"
      "map_of [(''platform'', PStr ''4'')] ''time'' = None \<longrightarrow> p_scheduled_time q = 0"
    by (elim conjE exE)
  have e2: "\<exists>p. dep_params (PStr ''Gent'') 5 [(''platform'', PStr ''4'')] = Inr p
          \<and> p_vehicle p = PStr [] \<and> p_train_id p = [] \<and> p_scheduled_time p = 0"
    using q b' by (intro exI [of _ q]) simp
  from t have "standardname body_without_header = None \<longrightarrow> station_name_of ''Gent'' body_without_header = PStr ''Gent''"
    by (elim conjE)
  with c' have e3: "station_name_of ''Gent'' body_without_header = PStr ''Gent''" by (rule rev_mp)
  from a b e1 a' b' e2 c' e3 show ?thesis by (intro conjI)
qed


section \<open>Per-station outcomes and the run\<close>

text \<open>
  C7 (as amended). A response with an empty departure list whose timestamp is absent or
  converts to an instant that \<open>datetime.fromtimestamp\<close> accepts is a success: both
  collectors return 0 without raising, the log holds a warning and no error, and the
  database is untouched, so nothing was attempted. A failed fetch ends differently: the
  script logs an error, the DAG task raises the exception again.
\<close>

theorem empty_departures_is_success:
  assumes "api e stn = Body data"
    and "departures_of data = []"
    and "collected_at_of data = Inr t"
  shows "collect_station e stn d = (0, [WARNING], d)
       \<and> fetch_and_store_liveboard e stn d = (Inr 0, None, [INFO, WARNING], d)
       \<and> (\<forall>e' x d'. api e' stn = Failed x \<longrightarrow>
             collect_station e' stn d' = (0, [ERROR], d')
           \<and> collect_station e' stn d' \<noteq> collect_station e stn d
           \<and> fst (fetch_and_store_liveboard e' stn d') = Inl x
           \<and> fst (fetch_and_store_liveboard e' stn d') \<noteq> fst (fetch_and_store_liveboard e stn d))"
  using assms by (simp add: collect_station_def fetch_and_store_liveboard_def)

theorem empty_departures_is_success_witness:
  "api (serving []) ''B'' = Body (body_of [])
   \<and> departures_of (body_of []) = []
   \<and> collected_at_of (body_of []) = Inr 5
   \<and> collect_station (serving []) ''B'' None = (0, [WARNING], None)
   \<and> fetch_and_store_liveboard (serving []) ''B'' None = (Inr 0, None, [INFO, WARNING], None)
   \<and> api one_down ''B'' = Failed RequestException
   \<and> collect_station one_down ''B'' None = (0, [ERROR], None)
   \<and> fst (fetch_and_store_liveboard one_down ''B'' None) = Inl RequestException"
proof -
  have a: "api (serving []) ''B'' = Body (body_of [])" by (simp add: serving_def)
  have b: "departures_of (body_of []) = []" by (simp add: departures_of_def body_of_def)
  have c: "collected_at_of (body_of []) = Inr 5"
    by (simp add: collected_at_of_def body_of_def fromtimestamp_def)
  have f: "api one_down ''B'' = Failed RequestException" by (simp add: one_down_def)
  note t = empty_departures_is_success [OF a b c, of None]
  from t have t1: "collect_station (serving []) ''B'' None = (0, [WARNING], None)" by (rule conjunct1)
  from t have t2: "fetch_and_store_liveboard (serving []) ''B'' None = (Inr 0, None, [INFO, WARNING], None)"
    by (rule conjunct2 [THEN conjunct1])
  from t have t3: "\<forall>e' x d'. api e' ''B'' = Failed x \<longrightarrow>
             collect_station e' ''B'' d' = (0, [ERROR], d')
           \<and> collect_station e' ''B'' d' \<noteq> collect_station (serving []) ''B'' None
           \<and> fst (fetch_and_store_liveboard e' ''B'' d') = Inl x
           \<and> fst (fetch_and_store_liveboard e' ''B'' d') \<noteq> fst (fetch_and_store_liveboard (serving []) ''B'' None)"
    by (rule conjunct2 [THEN conjunct2])
  from t3 [rule_format, OF f, of None]
  have t4: "collect_station one_down ''B'' None = (0, [ERROR], None)"
    and t5: "fst (fetch_and_store_liveboard one_down ''B'' None) = Inl RequestException"
    by simp_all
  from a b c t1 t2 f t4 t5 show ?thesis by (intro conjI)
qed

text \<open>
  C7 as stated fails: \<open>collected_at\<close> is computed before the test for an empty list, so
  an empty departure list under the timestamp \<open>"abc"\<close> ends as a failure: the script logs
  an error, the DAG task raises \<open>ValueError\<close>.
\<close>

theorem empty_departures_counterexample:
  "departures_of body_bad_timestamp = []
   \<and> api serving_bad_timestamp ''Brussels-Central'' = Body body_bad_timestamp
   \<and> collect_station serving_bad_timestamp ''Brussels-Central'' None = (0, [ERROR], None)
   \<and> fetch_and_store_liveboard serving_bad_timestamp ''Brussels-Central'' None
       = (Inl ValueError, None, [INFO, ERROR], None)"
  by code_simp

lemma collect_station_failed:
  "api e s = Failed x \<Longrightarrow> collect_station e s d = (0, [ERROR], d)"
  by (simp add: collect_station_def)

lemma collect_all_append:
  "collect_all e (xs @ ys) d =
     (case collect_all e xs d of (ns, d1) \<Rightarrow>
        (case collect_all e ys d1 of (ms, d2) \<Rightarrow> (ns @ ms, d2)))"
  by (induction xs arbitrary: d) (auto split: prod.splits)

lemma collect_all_length: "length (fst (collect_all e ss d)) = length ss"
proof (induction ss arbitrary: d)
  case Nil
  then show ?case by simp
next
  case (Cons s ss)
  obtain n l d' where cs: "collect_station e s d = (n, l, d')"
    by (cases "collect_station e s d") auto
  obtain ns d'' where ca: "collect_all e ss d' = (ns, d'')"
    by (cases "collect_all e ss d'") auto
  have "length ns = length ss" using Cons [of d'] ca by simp
  then show ?case using cs ca by simp
qed

text \<open>
  C5. When the fetch of a station fails, \<open>collect_station\<close> returns 0, logs the error
  and leaves the database as it was (nothing was attempted), and the loop of \<open>main\<close>
  goes on: the stations before and after it produce the counts they produce in a run
  without that station, and the total is the sum over the other stations only.
\<close>

theorem fetch_failure_is_isolated:
  assumes "api e s = Failed x"
  shows "collect_station e s d = (0, [ERROR], d)
       \<and> collect_all e (pre @ s # post) d =
           (case collect_all e pre d of (ns, d1) \<Rightarrow>
              (case collect_all e post d1 of (ms, d2) \<Rightarrow> (ns @ 0 # ms, d2)))
       \<and> collect_all e (pre @ post) d =
           (case collect_all e pre d of (ns, d1) \<Rightarrow>
              (case collect_all e post d1 of (ms, d2) \<Rightarrow> (ns @ ms, d2)))
       \<and> sum_list (fst (collect_all e (pre @ s # post) d)) = sum_list (fst (collect_all e (pre @ post) d))
       \<and> snd (collect_all e (pre @ s # post) d) = snd (collect_all e (pre @ post) d)"
proof -
  have f: "collect_station e s d' = (0, [ERROR], d')" for d'
    using assms by (rule collect_station_failed)
  obtain ns d1 where pre: "collect_all e pre d = (ns, d1)"
    by (cases "collect_all e pre d") auto
  obtain ms d2 where post: "collect_all e post d1 = (ms, d2)"
    by (cases "collect_all e post d1") auto
  have with_s: "collect_all e (pre @ s # post) d = (ns @ 0 # ms, d2)"
    using pre post f [of d1] by (simp add: collect_all_append)
  have without_s: "collect_all e (pre @ post) d = (ns @ ms, d2)"
    using pre post by (simp add: collect_all_append)
  show ?thesis using f [of d] with_s without_s pre post by simp
qed

theorem fetch_failure_is_isolated_witness:
  "api one_down ''B'' = Failed RequestException
   \<and> collect_station one_down ''B'' (Some \<lparr> natural_key = False, rows = [] \<rparr>)
       = (0, [ERROR], Some \<lparr> natural_key = False, rows = [] \<rparr>)
   \<and> collect_all one_down [''A'', ''B'', ''C''] (Some \<lparr> natural_key = False, rows = [] \<rparr>)
       = ([1, 0, 1], Some \<lparr> natural_key = False, rows = [row_ic1, row_ic1] \<rparr>)
   \<and> sum_list (fst (collect_all one_down ([''A''] @ ''B'' # [''C'']) (Some \<lparr> natural_key = False, rows = [] \<rparr>)))
       = sum_list (fst (collect_all one_down ([''A''] @ [''C'']) (Some \<lparr> natural_key = False, rows = [] \<rparr>)))"
proof -
  have a: "api one_down ''B'' = Failed RequestException" by (simp add: one_down_def)
  have b: "collect_all one_down [''A'', ''B'', ''C''] (Some \<lparr> natural_key = False, rows = [] \<rparr>)
       = ([1, 0, 1], Some \<lparr> natural_key = False, rows = [row_ic1, row_ic1] \<rparr>)"
    by code_simp
  from fetch_failure_is_isolated [OF a, of "Some \<lparr> natural_key = False, rows = [] \<rparr>" "[''A'']" "[''C'']"]
    a b show ?thesis by blast
qed

text \<open>
  C8 (as amended). The exit code of \<open>main\<close> is 0 exactly when the schema bootstrap and
  the statistics query after the station loop both succeed; no outcome of a station
  changes it. When the bootstrap succeeds every station is attempted; when it fails no
  station is attempted and the code is 1.
\<close>

theorem main_exit_code:
  "fst (main e d) = (if connects e Schema \<and> connects e Stats then 0 else 1)
   \<and> (connects e Schema \<longrightarrow> length (fst (snd (main e d))) = length STATIONS)
   \<and> (\<not> connects e Schema \<longrightarrow> main e d = (1, [], d))"
proof -
  obtain ns d2 where ca: "collect_all e STATIONS
       (case d of None \<Rightarrow> Some \<lparr> natural_key = False, rows = [] \<rparr> | Some t \<Rightarrow> Some t) = (ns, d2)"
    by (cases "collect_all e STATIONS
       (case d of None \<Rightarrow> Some \<lparr> natural_key = False, rows = [] \<rparr> | Some t \<Rightarrow> Some t)") auto
  have len: "length ns = length STATIONS"
    using collect_all_length [of e STATIONS
       "case d of None \<Rightarrow> Some \<lparr> natural_key = False, rows = [] \<rparr> | Some t \<Rightarrow> Some t"] ca by simp
  show ?thesis using ca len
    by (simp add: main_def main_on_def ensure_schema_def)
qed

theorem main_exit_code_witness:
  "connects (serving [dep_ic1]) Schema \<and> connects (serving [dep_ic1]) Stats
   \<and> fst (main (serving [dep_ic1]) None) = 0
   \<and> length (fst (snd (main (serving [dep_ic1]) None))) = length STATIONS
   \<and> \<not> connects schema_down Schema
   \<and> main schema_down None = (1, [], None)"
proof -
  have a: "connects (serving [dep_ic1]) Schema \<and> connects (serving [dep_ic1]) Stats"
    by (simp add: serving_def)
  have b: "\<not> connects schema_down Schema" by (simp add: schema_down_def)
  from main_exit_code [of "serving [dep_ic1]" None] main_exit_code [of schema_down None] a b
  show ?thesis by simp
qed

text \<open>
  C8 as stated fails: with the database unreachable for the statistics query only, all
  four stations are attempted (and each inserts its record), and the exit code is 1.
\<close>

theorem exit_code_after_all_stations_counterexample:
  "main stats_down None =
     (1, [1, 1, 1, 1], Some \<lparr> natural_key = False, rows = [row_ic1, row_ic1, row_ic1, row_ic1] \<rparr>)
   \<and> length [1, 1, 1, 1 :: nat] = length STATIONS"
  by code_simp

section \<open>Persistence of a batch\<close>

lemma execute_insert_ok:
  "execute_insert c p = (None, c') \<Longrightarrow> \<exists>r. c' = c\<lparr> pending := pending c @ [r] \<rparr>"
  by (auto simp: execute_insert_def split: if_splits option.splits sum.splits)

lemma loops_agree:
  "runs_clean name t deps c \<Longrightarrow>
     collect_station_loop name t deps (n, c) = fetch_and_store_loop name t deps (n, c)"
  by (induction deps arbitrary: n c) (auto split: sum.splits option.splits prod.splits)

lemma clean_loop_result:
  "runs_clean name t deps c \<Longrightarrow>
     \<exists>rs. length rs = length deps
        \<and> fetch_and_store_loop name t deps (n, c) = (n + length deps, c\<lparr> pending := pending c @ rs \<rparr>)"
proof (induction deps arbitrary: n c)
  case Nil
  then show ?case by simp
next
  case (Cons dep deps)
  from Cons.prems obtain p c' where p: "dep_params name t dep = Inr p"
    and ex: "execute_insert c p = (None, c')" and rest: "runs_clean name t deps c'"
    by (auto split: sum.splits option.splits prod.splits)
  from ex obtain r where c': "c' = c\<lparr> pending := pending c @ [r] \<rparr>"
    using execute_insert_ok by blast
  from Cons.IH [OF rest, of "n + 1"] obtain rs where rs: "length rs = length deps"
    and loop: "fetch_and_store_loop name t deps (n + 1, c')
                 = (n + 1 + length deps, c'\<lparr> pending := pending c' @ rs \<rparr>)"
    by blast
  have "fetch_and_store_loop name t (dep # deps) (n, c)
          = (n + length (dep # deps), c\<lparr> pending := pending c @ (r # rs) \<rparr>)"
    using p ex loop c' by simp
  moreover have "length (r # rs) = length (dep # deps)" using rs by simp
  ultimately show ?case by blast
qed

text \<open>
  Where a batch runs clean, that is, the parameters of every departure can be built and
  no \<open>INSERT\<close> raises, the two collectors return the number of departures and commit
  the same rows, one per departure, after the rows already stored.
\<close>

lemma collectors_agree_on_clean_batches:
  assumes "api e stn = Body data"
    and "collected_at_of data = Inr t"
    and "connects e (Station stn)"
    and "runs_clean (station_name_of stn data) t (departures_of data) (connect d)"
  shows "fst (fetch_and_store_liveboard e stn d) = Inr (fst (collect_station e stn d))
       \<and> snd (snd (snd (fetch_and_store_liveboard e stn d))) = snd (snd (collect_station e stn d))
       \<and> fst (collect_station e stn d) = length (departures_of data)
       \<and> (\<exists>rs. length rs = length (departures_of data)
              \<and> snd (snd (collect_station e stn d)) = map_option (\<lambda>t. t\<lparr> rows := rows t @ rs \<rparr>) d)"
proof (cases "departures_of data = []")
  case True
  then show ?thesis using assms(1,2)
    by (cases d) (simp_all add: collect_station_def fetch_and_store_liveboard_def)
next
  case False
  let ?name = "station_name_of stn data"
  let ?deps = "departures_of data"
  from clean_loop_result [OF assms(4), of 0] obtain rs where rs: "length rs = length ?deps"
    and dag: "fetch_and_store_loop ?name t ?deps (0, connect d)
                = (length ?deps, (connect d)\<lparr> pending := pending (connect d) @ rs \<rparr>)"
    by auto
  have script: "collect_station_loop ?name t ?deps (0, connect d)
                = (length ?deps, (connect d)\<lparr> pending := pending (connect d) @ rs \<rparr>)"
    using loops_agree [OF assms(4), of 0] dag by simp
  have fin: "close (commit ((connect d)\<lparr> pending := pending (connect d) @ rs \<rparr>))
               = map_option (\<lambda>t. t\<lparr> rows := rows t @ rs \<rparr>) d"
    by (simp add: close_def commit_def connect_def)
  have a: "collect_station e stn d
             = (length ?deps, [INFO], map_option (\<lambda>t. t\<lparr> rows := rows t @ rs \<rparr>) d)"
    using assms(1,2,3) False script fin by (simp add: collect_station_def)
  have b: "fetch_and_store_liveboard e stn d =
             (Inr (length ?deps), Some (length ?deps), [INFO, INFO],
              map_option (\<lambda>t. t\<lparr> rows := rows t @ rs \<rparr>) d)"
    using assms(1,2,3) False dag fin by (simp add: fetch_and_store_liveboard_def)
  show ?thesis using a b rs by auto
qed

lemma collectors_agree_on_clean_batches_example:
  "api (serving [dep_ic1, dep_ic2]) ''Gent'' = Body (body_of [dep_ic1, dep_ic2])
   \<and> collected_at_of (body_of [dep_ic1, dep_ic2]) = Inr 5
   \<and> connects (serving [dep_ic1, dep_ic2]) (Station ''Gent'')
   \<and> runs_clean (station_name_of ''Gent'' (body_of [dep_ic1, dep_ic2])) 5
        (departures_of (body_of [dep_ic1, dep_ic2])) (connect (Some \<lparr> natural_key = True, rows = [] \<rparr>))
   \<and> fst (fetch_and_store_liveboard (serving [dep_ic1, dep_ic2]) ''Gent'' (Some \<lparr> natural_key = True, rows = [] \<rparr>))
       = Inr (fst (collect_station (serving [dep_ic1, dep_ic2]) ''Gent'' (Some \<lparr> natural_key = True, rows = [] \<rparr>)))
   \<and> snd (snd (snd (fetch_and_store_liveboard (serving [dep_ic1, dep_ic2]) ''Gent'' (Some \<lparr> natural_key = True, rows = [] \<rparr>))))
       = snd (snd (collect_station (serving [dep_ic1, dep_ic2]) ''Gent'' (Some \<lparr> natural_key = True, rows = [] \<rparr>)))"
proof -
  have a: "api (serving [dep_ic1, dep_ic2]) ''Gent'' = Body (body_of [dep_ic1, dep_ic2])"
    by (simp add: serving_def)
  have b: "collected_at_of (body_of [dep_ic1, dep_ic2]) = Inr 5"
    by (simp add: collected_at_of_def body_of_def fromtimestamp_def)
  have c: "connects (serving [dep_ic1, dep_ic2]) (Station ''Gent'')"
    by (simp add: serving_def)
  have d: "runs_clean (station_name_of ''Gent'' (body_of [dep_ic1, dep_ic2])) 5
        (departures_of (body_of [dep_ic1, dep_ic2])) (connect (Some \<lparr> natural_key = True, rows = [] \<rparr>))"
    by code_simp
  from collectors_agree_on_clean_batches [OF a b c d] a b c d show ?thesis by blast
qed

text \<open>
  C9, evaluated on the code. With the record of \<open>IC1\<close> already stored under the natural
  key, a response holding \<open>IC2\<close>, the duplicate \<open>IC1\<close> and \<open>IC3\<close> makes the script
  return 2 and store \<open>IC3\<close>, and the DAG task return 1 and store nothing. Without any
  constraint, a departure whose time does not convert makes the script drop the record
  before it, which the DAG task keeps.
\<close>

theorem collectors_differ_on_failing_record:
  "collect_station (serving [dep_ic2, dep_ic1, dep_ic3]) ''Brussels-Central''
        (Some \<lparr> natural_key = True, rows = [row_ic1] \<rparr>)
      = (2, [INFO], Some \<lparr> natural_key = True, rows = [row_ic1, row_ic3] \<rparr>)
   \<and> fetch_and_store_liveboard (serving [dep_ic2, dep_ic1, dep_ic3]) ''Brussels-Central''
        (Some \<lparr> natural_key = True, rows = [row_ic1] \<rparr>)
      = (Inr 1, Some 1, [INFO, INFO], Some \<lparr> natural_key = True, rows = [row_ic1] \<rparr>)
   \<and> collect_station (serving [dep_ic2, dep_soon, dep_ic3]) ''Brussels-Central''
        (Some \<lparr> natural_key = False, rows = [] \<rparr>)
      = (2, [INFO], Some \<lparr> natural_key = False, rows = [row_ic3] \<rparr>)
   \<and> fetch_and_store_liveboard (serving [dep_ic2, dep_soon, dep_ic3]) ''Brussels-Central''
        (Some \<lparr> natural_key = False, rows = [] \<rparr>)
      = (Inr 2, Some 2, [INFO, INFO], Some \<lparr> natural_key = False, rows = [row_ic2, row_ic3] \<rparr>)"
  by code_simp

text \<open>
  C1, evaluated on the code. On a database without the table, \<open>ensure_schema\<close> creates
  it with no uniqueness constraint; collecting the same one-departure response twice
  then stores the record twice, and the second call returns 1.
\<close>

theorem same_record_twice_is_stored_twice:
  "ensure_schema (serving [dep_ic1]) None = Inr (Some \<lparr> natural_key = False, rows = [] \<rparr>)
   \<and> collect_station (serving [dep_ic1]) ''Brussels-Central'' (Some \<lparr> natural_key = False, rows = [] \<rparr>)
      = (1, [INFO], Some \<lparr> natural_key = False, rows = [row_ic1] \<rparr>)
   \<and> collect_station (serving [dep_ic1]) ''Brussels-Central'' (Some \<lparr> natural_key = False, rows = [row_ic1] \<rparr>)
      = (1, [INFO], Some \<lparr> natural_key = False, rows = [row_ic1, row_ic1] \<rparr>)"
  by code_simp

text \<open>
  C2, evaluated on the code. The table has the natural key and holds \<open>IC1\<close>; the batch
  is \<open>IC2\<close>, \<open>IC1\<close>, \<open>IC3\<close>. In the script the duplicate rolls the whole transaction
  back, so \<open>IC2\<close>, executed before it, is not committed. In the DAG task the duplicate
  leaves the transaction failed, so \<open>IC3\<close> is refused and nothing is committed.
\<close>

theorem duplicate_discards_other_records:
  "runs_clean (PStr ''Brussels'') 5 [dep_ic2] (connect (Some \<lparr> natural_key = True, rows = [row_ic1] \<rparr>))
   \<and> fst (execute_insert (connect (Some \<lparr> natural_key = True, rows = [row_ic1] \<rparr>))
             \<lparr> p_station = PStr ''Brussels'', p_train_id = ''IC1'', p_vehicle = PStr ''BE.NMBS.IC1'',
               p_platform = PStr ''3'', p_scheduled_time = 1000, p_delay_seconds = 60,
               p_cancelled = True, p_destination = PStr ''Gent'', p_collected_at = 5 \<rparr>)
       = Some IntegrityError
   \<and> collect_station (serving [dep_ic2, dep_ic1, dep_ic3]) ''Brussels-Central''
        (Some \<lparr> natural_key = True, rows = [row_ic1] \<rparr>)
      = (2, [INFO], Some \<lparr> natural_key = True, rows = [row_ic1, row_ic3] \<rparr>)
   \<and> fetch_and_store_liveboard (serving [dep_ic2, dep_ic1, dep_ic3]) ''Brussels-Central''
        (Some \<lparr> natural_key = True, rows = [row_ic1] \<rparr>)
      = (Inr 1, Some 1, [INFO, INFO], Some \<lparr> natural_key = True, rows = [row_ic1] \<rparr>)"
  by code_simp

text \<open>
  C3, evaluated on the code. The count returned is the number of \<open>INSERT\<close> statements
  that succeeded, not the number of rows committed. On the table that \<open>ensure_schema\<close>
  creates, the batch \<open>IC2\<close>, a departure whose time does not convert, \<open>IC3\<close> returns 2
  with one row committed. With the natural key and \<open>IC1\<close> stored, the batch \<open>IC2\<close>,
  \<open>IC1\<close> returns 1 from both collectors with no row committed.
\<close>

theorem returned_count_exceeds_committed_rows:
  "collect_station (serving [dep_ic2, dep_soon, dep_ic3]) ''Brussels-Central''
        (Some \<lparr> natural_key = False, rows = [] \<rparr>)
      = (2, [INFO], Some \<lparr> natural_key = False, rows = [row_ic3] \<rparr>)
   \<and> collect_station (serving [dep_ic2, dep_ic1]) ''Brussels-Central''
        (Some \<lparr> natural_key = True, rows = [row_ic1] \<rparr>)
      = (1, [INFO], Some \<lparr> natural_key = True, rows = [row_ic1] \<rparr>)
   \<and> fetch_and_store_liveboard (serving [dep_ic2, dep_ic1]) ''Brussels-Central''
        (Some \<lparr> natural_key = True, rows = [row_ic1] \<rparr>)
      = (Inr 1, Some 1, [INFO, INFO], Some \<lparr> natural_key = True, rows = [row_ic1] \<rparr>)"
  by code_simp

end
